theory Spec2Isabelle
  imports Main "HOL-Library.Word" "HOL-Library.Sublist"
begin

section \<open>JavaScript values\<close>

text \<open>
  Two kinds of strings occur. Sender addresses, session ids, header values, secrets and
  configuration values are \<^typ>\<open>string\<close>: header values reach Node decoded as Latin-1, one
  \<^typ>\<open>char\<close> per code unit. Message texts and replies of the conversational backend are
  arbitrary Unicode, so they are sequences of UTF-16 code units, as a JavaScript string is.
\<close>

type_synonym jsstring = "16 word list"

text \<open>
  An exception is a value with a name and the \<^verbatim>\<open>code\<close> property that
  \<^verbatim>\<open>readSessions\<close> inspects: a string for Node system errors (\<^verbatim>\<open>'ENOENT'\<close>), a
  number for errors of the storage SDK (the HTTP status), absent otherwise.
\<close>

datatype err_code = NoCode | StrCode string | NumCode nat

datatype js_error = JsError (err_name: string) (err_code: err_code)

abbreviation TypeError :: js_error where
  "TypeError \<equiv> JsError ''TypeError'' NoCode"

abbreviation InvalidArgType :: js_error where
  "InvalidArgType \<equiv> JsError ''TypeError'' (StrCode ''ERR_INVALID_ARG_TYPE'')"

abbreviation RangeError :: js_error where
  "RangeError \<equiv> JsError ''RangeError'' (StrCode ''ERR_CRYPTO_TIMING_SAFE_EQUAL_LENGTH'')"

abbreviation SyntaxError :: js_error where
  "SyntaxError \<equiv> JsError ''SyntaxError'' NoCode"

abbreviation ENOENT :: js_error where
  "ENOENT \<equiv> JsError ''Error'' (StrCode ''ENOENT'')"

abbreviation ApiError :: "nat \<Rightarrow> js_error" where
  "ApiError status \<equiv> JsError ''ApiError'' (NumCode status)"

section \<open>Reply sanitization (webhook handler, lines 60-61)\<close>

text \<open>
  \<^verbatim>\<open>text = text.replace(/\\/g, '');\<close>
  \<^verbatim>\<open>text = text.trim().replace(/^["']|["']$/g, '');\<close>
\<close>

definition remove_backslashes :: "jsstring \<Rightarrow> jsstring" where
  "remove_backslashes t = filter (\<lambda>c. c \<noteq> 0x5C) t"

text \<open>
  \<^verbatim>\<open>String.prototype.trim\<close> removes the ECMAScript WhiteSpace and LineTerminator code
  points from both ends.
\<close>

definition is_js_whitespace :: "16 word \<Rightarrow> bool" where
  "is_js_whitespace c \<longleftrightarrow>
     c \<in> {0x09, 0x0A, 0x0B, 0x0C, 0x0D, 0x20, 0xA0, 0x1680,
          0x2000, 0x2001, 0x2002, 0x2003, 0x2004, 0x2005, 0x2006, 0x2007,
          0x2008, 0x2009, 0x200A, 0x2028, 0x2029, 0x202F, 0x205F, 0x3000, 0xFEFF}"

definition js_trim :: "jsstring \<Rightarrow> jsstring" where
  "js_trim s = rev (dropWhile is_js_whitespace (rev (dropWhile is_js_whitespace s)))"

definition is_quote :: "16 word \<Rightarrow> bool" where
  "is_quote c \<longleftrightarrow> c = 0x22 \<or> c = 0x27"

text \<open>
  The global replace with \<^verbatim>\<open>/^["']|["']$/g\<close> and the empty replacement, as the scan the
  regular-expression engine performs: at index \<open>i\<close> the first alternative matches a quote
  at the start of the input (\<open>i = 0\<close>), the second a quote that is the last code unit;
  a match is one code unit long and is dropped, anything else is kept.
\<close>

fun replace_quotes :: "nat \<Rightarrow> jsstring \<Rightarrow> jsstring" where
  "replace_quotes i [] = []"
| "replace_quotes i (c # cs) =
     (if (i = 0 \<and> is_quote c) \<or> (is_quote c \<and> cs = [])
      then replace_quotes (Suc i) cs
      else c # replace_quotes (Suc i) cs)"

definition sanitize :: "jsstring \<Rightarrow> jsstring" where
  "sanitize t = replace_quotes 0 (js_trim (remove_backslashes t))"

text \<open>
  The same normalization in the words of the specification: strip all backslash
  characters, trim, then take off one leading quote character if present and one trailing
  quote character if present.
\<close>

definition strip_leading_quote :: "jsstring \<Rightarrow> jsstring" where
  "strip_leading_quote s = (case s of [] \<Rightarrow> [] | c # cs \<Rightarrow> if is_quote c then cs else s)"

definition strip_trailing_quote :: "jsstring \<Rightarrow> jsstring" where
  "strip_trailing_quote s = (if s \<noteq> [] \<and> is_quote (last s) then butlast s else s)"

definition sanitize_spec :: "jsstring \<Rightarrow> jsstring" where
  "sanitize_spec t =
     strip_trailing_quote (strip_leading_quote (js_trim (filter (\<lambda>c. c \<noteq> 0x5C) t)))"

section \<open>Authenticity verifier (webhook handler, lines 9-16)\<close>

text \<open>
  \<^verbatim>\<open>signature.replace('sha256=', '')\<close> with a string pattern removes the first occurrence
  of the pattern, wherever it stands.
\<close>

fun remove_first :: "string \<Rightarrow> string \<Rightarrow> string" where
  "remove_first pat [] = []"
| "remove_first pat (c # cs) =
     (if prefix pat (c # cs) then drop (length pat) (c # cs)
      else c # remove_first pat cs)"

text \<open>
  \<^verbatim>\<open>Buffer.from(s, 'utf8')\<close> on a string of Latin-1 code units: one byte below
  \<open>0x80\<close>, two bytes from there on.
\<close>

definition utf8_char :: "char \<Rightarrow> 8 word list" where
  "utf8_char c =
     (let n = (of_char c :: nat)
      in if n < 128 then [of_nat n]
         else [of_nat (192 + n div 64), of_nat (128 + n mod 64)])"

definition buffer_from :: "string \<Rightarrow> 8 word list" where
  "buffer_from s = concat (map utf8_char s)"

text \<open>
  \<^verbatim>\<open>crypto.timingSafeEqual\<close> throws a \<^verbatim>\<open>RangeError\<close> when the two buffers differ in byte
  length, and compares them otherwise.
\<close>

definition timingSafeEqual :: "8 word list \<Rightarrow> 8 word list \<Rightarrow> js_error + bool" where
  "timingSafeEqual a b = (if length a \<noteq> length b then Inl RangeError else Inr (a = b))"

text \<open>
  The keyed digest of Node's \<^verbatim>\<open>crypto\<close> module is a parameter \<open>hmac\<close>: secret and raw
  body to the hexadecimal digest. The header is \<^verbatim>\<open>undefined\<close> when the request carries
  none, and so is the secret when \<^verbatim>\<open>APP_SECRET\<close> is not set: \<^verbatim>\<open>undefined.replace\<close> and
  \<^verbatim>\<open>createHmac('sha256', undefined)\<close> both throw a \<^verbatim>\<open>TypeError\<close>.
\<close>

definition verifySignature ::
  "(string \<Rightarrow> string \<Rightarrow> string) \<Rightarrow> string \<Rightarrow> string option \<Rightarrow> string option \<Rightarrow> js_error + bool"
where
  "verifySignature hmac payload signature secret =
     (case signature of
        None \<Rightarrow> Inl TypeError
      | Some sig \<Rightarrow>
          let hmacReceived = remove_first ''sha256='' sig
          in (case secret of
                None \<Rightarrow> Inl InvalidArgType
              | Some k \<Rightarrow>
                  let digest = hmac k payload
                  in timingSafeEqual (buffer_from hmacReceived) (buffer_from digest)))"

section \<open>Session store (sessionManager.js)\<close>

subsection \<open>The session mapping as a JavaScript object\<close>

text \<open>
  The mapping is a plain object from sender address to session id. It is kept as the list
  of its own properties in the order \<^verbatim>\<open>Object.keys\<close> enumerates them: array-index keys
  (canonical decimal numerals below \<open>2^32 - 1\<close>) ascending, then the other keys in order
  of creation.
\<close>

type_synonym sessions = "(string \<times> string) list"

text \<open>
  A property read \<^verbatim>\<open>obj[k]\<close> gives the own property when there is one; otherwise the
  object inherits from \<^verbatim>\<open>Object.prototype\<close>, whose members are functions (and, for
  \<^verbatim>\<open>__proto__\<close>, the prototype object itself); otherwise it gives \<^verbatim>\<open>undefined\<close>.
\<close>

datatype js_value = Undefined | Str string | Inherited string

definition object_prototype_members :: "string list" where
  "object_prototype_members =
     [''constructor'', ''__defineGetter__'', ''__defineSetter__'', ''hasOwnProperty'',
      ''__lookupGetter__'', ''__lookupSetter__'', ''isPrototypeOf'', ''propertyIsEnumerable'',
      ''toString'', ''valueOf'', ''__proto__'', ''toLocaleString'']"

definition js_get :: "sessions \<Rightarrow> string \<Rightarrow> js_value" where
  "js_get obj k =
     (case map_of obj k of
        Some v \<Rightarrow> Str v
      | None \<Rightarrow> if k \<in> set object_prototype_members then Inherited k else Undefined)"

text \<open>\<^verbatim>\<open>!v\<close>: of the values a read can give, \<^verbatim>\<open>undefined\<close> and the empty string are falsy.\<close>

definition falsy :: "js_value \<Rightarrow> bool" where
  "falsy v \<longleftrightarrow> v = Undefined \<or> v = Str []"

definition is_digit :: "char \<Rightarrow> bool" where
  "is_digit c \<longleftrightarrow> (48::nat) \<le> of_char c \<and> (of_char c :: nat) \<le> 57"

definition decimal_value :: "string \<Rightarrow> nat" where
  "decimal_value k = foldl (\<lambda>a c. 10 * a + (of_char c - 48)) 0 k"

definition is_array_index :: "string \<Rightarrow> bool" where
  "is_array_index k \<longleftrightarrow>
     k \<noteq> [] \<and> list_all is_digit k \<and> (k = ''0'' \<or> hd k \<noteq> CHR ''0'') \<and>
     decimal_value k < 2 ^ 32 - 1"

fun assign_existing :: "string \<Rightarrow> string \<Rightarrow> sessions \<Rightarrow> sessions" where
  "assign_existing k v [] = []"
| "assign_existing k v ((k', v') # ps) =
     (if k' = k then (k, v) # ps else (k', v') # assign_existing k v ps)"

fun insert_index :: "string \<Rightarrow> string \<Rightarrow> sessions \<Rightarrow> sessions" where
  "insert_index k v [] = [(k, v)]"
| "insert_index k v ((k', v') # ps) =
     (if is_array_index k' \<and> decimal_value k' < decimal_value k
      then (k', v') # insert_index k v ps
      else (k, v) # (k', v') # ps)"

text \<open>
  \<^verbatim>\<open>obj[k] = v\<close> for a key that is an own property or is not inherited: an existing
  property keeps its place, a new one is placed by its kind.
\<close>

definition js_set :: "sessions \<Rightarrow> string \<Rightarrow> string \<Rightarrow> sessions" where
  "js_set obj k v =
     (if k \<in> set (map fst obj) then assign_existing k v obj
      else if is_array_index k then insert_index k v obj
      else obj @ [(k, v)])"

text \<open>
  The reverse lookup of the notification endpoints:
  \<^verbatim>\<open>Object.keys(obj).find(key => obj[key] === sessionId)\<close>, where \<^verbatim>\<open>sessionId\<close> is
  \<^verbatim>\<open>undefined\<close> when the query parameter is absent and the result is \<^verbatim>\<open>undefined\<close> when
  no key matches.
\<close>

definition query_value :: "string option \<Rightarrow> js_value" where
  "query_value q = (case q of None \<Rightarrow> Undefined | Some s \<Rightarrow> Str s)"

definition find_key :: "sessions \<Rightarrow> string option \<Rightarrow> string option" where
  "find_key obj sessionId =
     find (\<lambda>key. js_get obj key = query_value sessionId) (map fst obj)"

subsection \<open>Outbound calls, files and the outside world\<close>

record template_message =
  tm_to :: "string option"
  tm_name :: string
  tm_language :: string
  tm_parameters :: "string option list"

text \<open>
  The calls a handler makes to its collaborators, in the order it makes them: the
  conversational backend (\<^verbatim>\<open>main(text, sessionId, userId)\<close>), the three kinds of posts to
  the messaging platform, and the post to the operator channel.
\<close>

datatype call =
    DetectIntent jsstring js_value string
  | SendText "string option" string jsstring
  | MarkRead "string option" string
  | SendTemplate template_message
  | TelegramSend "string option" jsstring

text \<open>
  The text of \<^verbatim>\<open>sessions.json\<close>, locally or in the bucket: what \<^verbatim>\<open>JSON.stringify\<close> writes
  for a mapping and \<^verbatim>\<open>JSON.parse\<close> reads back as that mapping is \<open>Json\<close> of the mapping;
  \<open>Garbage\<close> is a text \<^verbatim>\<open>JSON.parse\<close> rejects.
\<close>

datatype file_content = Json sessions | Garbage

text \<open>
  \<open>pending_upload\<close> holds while an upload of the local file that nobody awaits has been
  started and has not yet come to its end.
\<close>

record world =
  remote :: "file_content option"
  local_file :: "file_content option"
  backups :: "nat \<rightharpoonup> file_content"
  pending_upload :: bool
  calls :: "call list"

text \<open>
  What the outside world answers during one invocation: the clock, the random source
  (\<^verbatim>\<open>Math.random().toString(36).substring(2, 15)\<close>), and for each external call whether
  it fails and with which error.
\<close>

record env =
  now :: nat
  random36 :: string
  download_err :: "js_error option"
  upload_err :: "js_error option"
  detect_intent :: "jsstring \<Rightarrow> js_value \<Rightarrow> string \<Rightarrow> js_error + jsstring"
  send_text_err :: "js_error option"
  mark_read_err :: "js_error option"
  telegram_err :: "string option \<Rightarrow> js_error option"

text \<open>\<^verbatim>\<open>process.env\<close>: a variable that is not set reads as \<^verbatim>\<open>undefined\<close>.\<close>

record config =
  APP_SECRET :: "string option"
  WEBHOOK_VERIFY_TOKEN :: "string option"
  CHAT_ID :: "string option"
  TEST_ID :: "string option"
  PHONE_NUMBER :: "string option"

subsection \<open>Download and read (lines 12-25, 85-110)\<close>

text \<open>
  \<^verbatim>\<open>backupExistingFile\<close> renames the local file to \<^verbatim>\<open>sessions.json.<now>.bak\<close>, replacing
  a backup of the same name.
\<close>

definition backupExistingFile :: "nat \<Rightarrow> world \<Rightarrow> world" where
  "backupExistingFile t w =
     (case local_file w of
        None \<Rightarrow> w
      | Some c \<Rightarrow> w\<lparr>local_file := None, backups := (backups w)(t \<mapsto> c)\<rparr>)"

text \<open>
  The storage SDK rejects the download of an object that is not in the bucket with an
  \<^verbatim>\<open>ApiError\<close> whose \<^verbatim>\<open>code\<close> is the HTTP status 404; any other failure of the service
  is the error the environment supplies. \<^verbatim>\<open>downloadFile\<close> logs and rethrows.
\<close>

definition downloadFile :: "env \<Rightarrow> world \<Rightarrow> (js_error + unit) \<times> world" where
  "downloadFile e w =
     (let w1 = backupExistingFile (now e) w
      in case download_err e of
           Some err \<Rightarrow> (Inl err, w1)
         | None \<Rightarrow>
             (case remote w1 of
                None \<Rightarrow> (Inl (ApiError 404), w1)
              | Some c \<Rightarrow> (Inr (), w1\<lparr>local_file := Some c\<rparr>)))"

definition readFileSync :: "world \<Rightarrow> js_error + file_content" where
  "readFileSync w = (case local_file w of None \<Rightarrow> Inl ENOENT | Some c \<Rightarrow> Inr c)"

definition JSON_parse :: "file_content \<Rightarrow> js_error + sessions" where
  "JSON_parse c = (case c of Json obj \<Rightarrow> Inr obj | Garbage \<Rightarrow> Inl SyntaxError)"

text \<open>The body of the \<^verbatim>\<open>try\<close> block of \<^verbatim>\<open>readSessions\<close>, then the function with its \<^verbatim>\<open>catch\<close>.\<close>

definition readSessions_try :: "env \<Rightarrow> world \<Rightarrow> (js_error + sessions) \<times> world" where
  "readSessions_try e w =
     (case downloadFile e w of
        (Inl err, w1) \<Rightarrow> (Inl err, w1)
      | (Inr _, w1) \<Rightarrow>
          (case readFileSync w1 of
             Inl err \<Rightarrow> (Inl err, w1)
           | Inr data \<Rightarrow> (JSON_parse data, w1)))"

definition readSessions :: "env \<Rightarrow> world \<Rightarrow> (js_error + sessions) \<times> world" where
  "readSessions e w =
     (case readSessions_try e w of
        (Inl err, w1) \<Rightarrow>
          if err_code err = StrCode ''ENOENT'' then (Inr [], w1) else (Inl err, w1)
      | (Inr obj, w1) \<Rightarrow> (Inr obj, w1))"

subsection \<open>Write and upload (lines 29-36, 71-81)\<close>

text \<open>
  \<^verbatim>\<open>uploadFile\<close> copies the local file to the bucket. Its \<^verbatim>\<open>catch\<close> logs the error and
  returns; so does the \<^verbatim>\<open>catch\<close> of \<^verbatim>\<open>writeSessions\<close> around the local write and the
  upload.
\<close>

definition uploadFile_try :: "env \<Rightarrow> world \<Rightarrow> (js_error + unit) \<times> world" where
  "uploadFile_try e w =
     (case upload_err e of
        Some err \<Rightarrow> (Inl err, w)
      | None \<Rightarrow>
          (case local_file w of
             None \<Rightarrow> (Inl ENOENT, w)
           | Some c \<Rightarrow> (Inr (), w\<lparr>remote := Some c\<rparr>)))"

definition uploadFile :: "env \<Rightarrow> world \<Rightarrow> (js_error + unit) \<times> world" where
  "uploadFile e w =
     (case uploadFile_try e w of
        (Inl err, w1) \<Rightarrow> (Inr (), w1)
      | (Inr u, w1) \<Rightarrow> (Inr u, w1))"

definition writeSessions_try :: "env \<Rightarrow> sessions \<Rightarrow> world \<Rightarrow> (js_error + unit) \<times> world" where
  "writeSessions_try e obj w = uploadFile e (w\<lparr>local_file := Some (Json obj)\<rparr>)"

definition writeSessions :: "env \<Rightarrow> sessions \<Rightarrow> world \<Rightarrow> (js_error + unit) \<times> world" where
  "writeSessions e obj w =
     (case writeSessions_try e obj w of
        (Inl err, w1) \<Rightarrow> (Inr (), w1)
      | (Inr u, w1) \<Rightarrow> (Inr u, w1))"

text \<open>
  A call of \<^verbatim>\<open>writeSessions\<close> that is not awaited runs in two parts. Before the caller
  goes on, the body runs up to its first suspension: \<^verbatim>\<open>fs.writeFileSync\<close> has written
  the local file and \<^verbatim>\<open>uploadFile\<close> has started the upload. The rest runs when the
  upload comes to its end, whenever that is: the bucket then holds what the local file
  holds at that time, or the failure is caught and logged as above.
\<close>

definition writeSessions_start :: "sessions \<Rightarrow> world \<Rightarrow> world" where
  "writeSessions_start obj w = w\<lparr>local_file := Some (Json obj), pending_upload := True\<rparr>"

definition writeSessions_finish :: "env \<Rightarrow> world \<Rightarrow> world" where
  "writeSessions_finish e w =
     (if pending_upload w then (snd (uploadFile e w))\<lparr>pending_upload := False\<rparr> else w)"

subsection \<open>Session identifier generator (lines 53-58)\<close>

definition digit36 :: "nat \<Rightarrow> char" where
  "digit36 d = ''0123456789abcdefghijklmnopqrstuvwxyz'' ! d"

function to_base36 :: "nat \<Rightarrow> string" where
  "to_base36 n = (if n < 36 then [digit36 n] else to_base36 (n div 36) @ [digit36 (n mod 36)])"
  by pat_completeness auto
termination
  by (relation "measure (\<lambda>n. n)") auto

declare to_base36.simps [simp del]

text \<open>
  The digest of CryptoJS is a parameter \<open>sha256\<close>, from the hashed text to its
  hexadecimal digest.
\<close>

definition generateSessionId :: "(string \<Rightarrow> string) \<Rightarrow> env \<Rightarrow> string \<Rightarrow> string" where
  "generateSessionId sha256 e userId =
     (let randomString = random36 e;
          timestamp = to_base36 (now e);
          hash = sha256 (userId @ randomString @ timestamp)
      in randomString @ ''-'' @ timestamp @ ''-'' @ hash @ ''-whatsapp'')"

subsection \<open>Resolve or create (lines 40-49)\<close>

text \<open>
  \<^verbatim>\<open>writeSessions(sessions)\<close> is called without \<^verbatim>\<open>await\<close> and its promise is dropped:
  when \<^verbatim>\<open>getSessionId\<close> returns, the local file is written and the upload is pending.
  The value returned is the read \<^verbatim>\<open>sessions[userId]\<close>, in both branches.
\<close>

definition getSessionId ::
  "(string \<Rightarrow> string) \<Rightarrow> env \<Rightarrow> string \<Rightarrow> world \<Rightarrow> (js_error + js_value) \<times> world"
where
  "getSessionId sha256 e userId w =
     (case readSessions e w of
        (Inl err, w1) \<Rightarrow> (Inl err, w1)
      | (Inr obj, w1) \<Rightarrow>
          if falsy (js_get obj userId) then
            (let sessionId = generateSessionId sha256 e userId;
                 obj' = js_set obj userId sessionId;
                 w2 = writeSessions_start obj' w1
             in (Inr (js_get obj' userId), w2))
          else (Inr (js_get obj userId), w1))"


section \<open>Webhook handler\<close>

record message =
  msg_from :: string
  msg_type :: "string option"
  msg_text :: "jsstring option"
  msg_id :: string

text \<open>
  The request as the handler reads it: \<open>http_method\<close> is \<^verbatim>\<open>req.method\<close>, \<open>message\<close> is
  \<^verbatim>\<open>req.body.entry?.[0]?.changes?.[0]?.value?.messages?.[0]\<close>, \<open>msg_text\<close> is the body
  of \<^verbatim>\<open>message.text\<close> (\<open>None\<close> when the message has no \<^verbatim>\<open>text\<close> member), \<open>signature\<close>
  the header \<^verbatim>\<open>x-hub-signature-256\<close>.
\<close>

record request =
  http_method :: string
  message :: "message option"
  phone_number_id :: "string option"
  signature :: "string option"
  rawBody :: string
  hub_mode :: "string option"
  hub_verify_token :: "string option"
  hub_challenge :: "string option"

datatype response =
    SendStatus nat
  | Send nat "string option"
  | SendJson string

fun status_of :: "response \<Rightarrow> nat" where
  "status_of (SendStatus n) = n"
| "status_of (Send n b) = n"
| "status_of (SendJson t) = 200"

definition js_of_string :: "string \<Rightarrow> jsstring" where
  "js_of_string s = map of_char s"

text \<open>The transcript sent to the operator channel (lines 101-102).\<close>

definition transcript :: "string \<Rightarrow> jsstring \<Rightarrow> jsstring \<Rightarrow> jsstring" where
  "transcript sender body text =
     js_of_string sender
     @ [0x20, 0x0A, 0x20, 0x41F, 0x43E, 0x43B, 0x44C, 0x437, 0x43E, 0x432, 0x430, 0x442,
        0x435, 0x43B, 0x44C, 0x3A, 0x20]
     @ body
     @ [0x20, 0x0A, 0x0A, 0x20, 0x41E, 0x442, 0x432, 0x435, 0x442, 0x3A, 0x20]
     @ text"

text \<open>\<^verbatim>\<open>sendMessage\<close> posts to the operator channel; its own \<^verbatim>\<open>catch\<close> logs a failure.\<close>

definition sendMessage :: "env \<Rightarrow> jsstring \<Rightarrow> string option \<Rightarrow> world \<Rightarrow> world" where
  "sendMessage e text chat w =
     (let w1 = w\<lparr>calls := calls w @ [TelegramSend chat text]\<rparr>
      in case telegram_err e chat of Some err \<Rightarrow> w1 | None \<Rightarrow> w1)"

text \<open>The \<^verbatim>\<open>try\<close> block for a text message (lines 40-104).\<close>

definition handle_text ::
  "(string \<Rightarrow> string \<Rightarrow> string) \<Rightarrow> (string \<Rightarrow> string) \<Rightarrow> config \<Rightarrow> env \<Rightarrow> request \<Rightarrow>
   message \<Rightarrow> world \<Rightarrow> (js_error + response) \<times> world"
where
  "handle_text hmac sha256 cfg e req m w =
     (let userId = msg_from m
      in case verifySignature hmac (rawBody req) (signature req) (APP_SECRET cfg) of
           Inl err \<Rightarrow> (Inl err, w)
         | Inr ok \<Rightarrow>
             if \<not> ok then (Inr (Send 403 (Some ''Unexpected request'')), w)
             else
               (case getSessionId sha256 e userId w of
                  (Inl err, w1) \<Rightarrow> (Inl err, w1)
                | (Inr sessionId, w1) \<Rightarrow>
                    (case msg_text m of
                       None \<Rightarrow> (Inl TypeError, w1)
                     | Some body \<Rightarrow>
                         let w2 = w1\<lparr>calls := calls w1 @ [DetectIntent body sessionId userId]\<rparr>
                         in (case detect_intent e body sessionId userId of
                               Inl err \<Rightarrow> (Inl err, w2)
                             | Inr reply \<Rightarrow>
                                 let text = sanitize reply;
                                     w3 = w2\<lparr>calls := calls w2 @
                                            [SendText (phone_number_id req) userId text]\<rparr>
                                 in (case send_text_err e of
                                       Some err \<Rightarrow> (Inl err, w3)
                                     | None \<Rightarrow>
                                         let w4 = w3\<lparr>calls := calls w3 @
                                                    [MarkRead (phone_number_id req) (msg_id m)]\<rparr>
                                         in (case mark_read_err e of
                                               Some err \<Rightarrow> (Inl err, w4)
                                             | None \<Rightarrow>
                                                 let t = transcript userId body text;
                                                     w5 = sendMessage e t (CHAT_ID cfg) w4;
                                                     w6 = sendMessage e t (TEST_ID cfg) w5
                                                 in (Inr (SendStatus 200), w6)))))))"

text \<open>
  The handler (lines 24-126). The result is the response it sends, \<open>None\<close> when it
  returns without sending one, and the world it leaves; an upload that
  \<^verbatim>\<open>getSessionId\<close> started is still pending in it, since nothing in the handler waits
  for it.
\<close>

definition WAwebhook ::
  "(string \<Rightarrow> string \<Rightarrow> string) \<Rightarrow> (string \<Rightarrow> string) \<Rightarrow> config \<Rightarrow> env \<Rightarrow> request \<Rightarrow>
   world \<Rightarrow> response option \<times> world"
where
  "WAwebhook hmac sha256 cfg e req w =
     (if http_method req = ''POST'' then
        (case message req of
           None \<Rightarrow> (Some (SendStatus 200), w)
         | Some m \<Rightarrow>
             if msg_type m = Some ''text'' then
               (case handle_text hmac sha256 cfg e req m w of
                  (Inl err, w1) \<Rightarrow> (Some (SendStatus 500), w1)
                | (Inr r, w1) \<Rightarrow> (Some r, w1))
             else (Some (SendStatus 200), w))
      else if http_method req = ''GET'' then
        (if hub_mode req = Some ''subscribe'' \<and> hub_verify_token req = WEBHOOK_VERIFY_TOKEN cfg
         then (Some (Send 200 (hub_challenge req)), w)
         else (Some (SendStatus 403), w))
      else (None, w))"

section \<open>Notification endpoints (newLead, newAccident)\<close>

text \<open>
  \<open>x_session\<close> is \<^verbatim>\<open>req.query['X-SESSION']\<close>, \<open>field\<close> reads a member of \<^verbatim>\<open>req.body\<close>.
  Each endpoint carries its own copy of \<^verbatim>\<open>readSessions\<close>, \<^verbatim>\<open>downloadFile\<close> and
  \<^verbatim>\<open>backupExistingFile\<close>, the same as the session manager's but for one more log line.
  The post to the messaging platform is not awaited; its outcome is only logged.
\<close>

record notify_request =
  x_session :: "string option"
  field :: "string \<Rightarrow> string option"

definition newLead :: "config \<Rightarrow> env \<Rightarrow> notify_request \<Rightarrow> world \<Rightarrow> response \<times> world" where
  "newLead cfg e req w =
     (case readSessions e w of
        (Inl err, w1) \<Rightarrow>
          (SendJson ''Failed to create the request, please contact support.'', w1)
      | (Inr obj, w1) \<Rightarrow>
          let phoneNumber = find_key obj (x_session req);
              messageData =
                \<lparr>tm_to = PHONE_NUMBER cfg,
                 tm_name = ''new_lead_notification'',
                 tm_language = ''ru'',
                 tm_parameters =
                   [field req ''name'', field req ''company'', phoneNumber,
                    field req ''surface'', field req ''period'', field req ''location'']\<rparr>
          in (SendJson
                ''Your request has been successfully created, please wait, we will contact you soon.'',
              w1\<lparr>calls := calls w1 @ [SendTemplate messageData]\<rparr>))"

definition newAccident :: "config \<Rightarrow> env \<Rightarrow> notify_request \<Rightarrow> world \<Rightarrow> response \<times> world" where
  "newAccident cfg e req w =
     (case readSessions e w of
        (Inl err, w1) \<Rightarrow>
          (SendJson ''Failed to create request, please contact support.'', w1)
      | (Inr obj, w1) \<Rightarrow>
          let phoneNumber = find_key obj (x_session req);
              messageData =
                \<lparr>tm_to = PHONE_NUMBER cfg,
                 tm_name = ''new_accident_notification'',
                 tm_language = ''ru'',
                 tm_parameters =
                   [field req ''name'', field req ''organization'', field req ''problem'',
                    phoneNumber]\<rparr>
          in (SendJson
                ''Your request has been successfully created, please wait, we will contact you shortly.'',
              w1\<lparr>calls := calls w1 @ [SendTemplate messageData]\<rparr>))"

section \<open>Concrete requests and worlds\<close>

text \<open>
  The instances the theorems below are evaluated at. The two digests are tables with one
  entry each, the HMAC-SHA256 of \<open>ex_body\<close> under the secret \<^verbatim>\<open>app-secret\<close> and the
  SHA-256 of the text hashed for the sender \<^verbatim>\<open>77011234567\<close>; no other entry is read.
\<close>

definition ex_body :: string where
  \<open>ex_body = ''{"entry":[{"changes":[{"value":{"metadata":{"phone_number_id":"105500"},"messages":[{"from":"77011234567","id":"wamid.A1","type":"text","text":{"body":"Hello"}}]}}]}]}''\<close>

definition ex_digest :: string where
  "ex_digest = ''9b155856969836381e45488aa5713a9f57f21c9d1840a6e7cd5070651c319141''"

definition ex_hmac :: "string \<Rightarrow> string \<Rightarrow> string" where
  "ex_hmac k p = (if k = ''app-secret'' \<and> p = ex_body then ex_digest else replicate 64 CHR ''0'')"

definition ex_sha256 :: "string \<Rightarrow> string" where
  "ex_sha256 s =
     (if s = ''77011234567k3j9x0q2m1aloyw3v28''
      then ''d0d4019a59579881a5a6e9fba1c8eb92230080eafc2c7be0d42fc565114d2417''
      else replicate 64 CHR ''0'')"

definition ex_cfg :: config where
  "ex_cfg =
     \<lparr>APP_SECRET = Some ''app-secret'', WEBHOOK_VERIFY_TOKEN = Some ''verify-me'',
      CHAT_ID = Some ''-1001'', TEST_ID = Some ''-1002'',
      PHONE_NUMBER = Some ''77770001122''\<rparr>"

definition ex_env :: env where
  "ex_env =
     \<lparr>now = 1700000000000, random36 = ''k3j9x0q2m1a'',
      download_err = None, upload_err = None,
      detect_intent = (\<lambda>text sessionId userId. Inr (js_of_string ''Hi there'')),
      send_text_err = None, mark_read_err = None,
      telegram_err = (\<lambda>chat. None)\<rparr>"

definition ex_message :: message where
  "ex_message =
     \<lparr>msg_from = ''77011234567'', msg_type = Some ''text'',
      msg_text = Some (js_of_string ''Hello''), msg_id = ''wamid.A1''\<rparr>"

definition ex_post :: request where
  "ex_post =
     \<lparr>http_method = ''POST'', message = Some ex_message, phone_number_id = Some ''105500'',
      signature = Some (''sha256='' @ ex_digest), rawBody = ex_body,
      hub_mode = None, hub_verify_token = None, hub_challenge = None\<rparr>"

text \<open>
  A world whose snapshot knows one other sender, and the id minted for the sender of
  \<open>ex_message\<close> under \<open>ex_env\<close>.
\<close>

definition ex_sessions :: sessions where
  "ex_sessions = [(''77025556677'', ''a1b2c3-lk0000zz-00ff-whatsapp'')]"

definition ex_world :: world where
  "ex_world =
     \<lparr>remote = Some (Json ex_sessions), local_file = None, backups = Map.empty,
      pending_upload = False, calls = []\<rparr>"

definition ex_session_id :: string where
  "ex_session_id =
     ''k3j9x0q2m1a-loyw3v28-d0d4019a59579881a5a6e9fba1c8eb92230080eafc2c7be0d42fc565114d2417-whatsapp''"

definition ex_notify :: notify_request where
  "ex_notify =
     \<lparr>x_session = Some ''a1b2c3-lk0000zz-00ff-whatsapp'',
      field = map_of [(''name'', ''Aigerim''), (''company'', ''Too Alem''),
                      (''surface'', ''120''), (''period'', ''6''), (''location'', ''Almaty''),
                      (''organization'', ''Too Alem''), (''problem'', ''leak'')]\<rparr>"

section \<open>Properties of the sanitization\<close>

lemma replace_quotes_later:
  "0 < i \<Longrightarrow> replace_quotes i s = strip_trailing_quote s"
  by (induction s arbitrary: i) (auto simp: strip_trailing_quote_def)

lemma replace_quotes_start:
  "replace_quotes 0 s = strip_trailing_quote (strip_leading_quote s)"
  by (cases s) (auto simp: strip_leading_quote_def replace_quotes_later strip_trailing_quote_def)

text \<open>
  Claim C9. For every reply string, the sanitization the handler applies is exactly:
  remove every backslash, trim whitespace, remove one leading quote character (double or
  single) if present and one trailing quote character if present.
\<close>

theorem sanitize_is_spec: "sanitize t = sanitize_spec t"
  by (simp add: sanitize_def sanitize_spec_def remove_backslashes_def replace_quotes_start)

section \<open>Facts about the session store\<close>

lemma remote_backup: "remote (backupExistingFile t w) = remote w"
  by (simp add: backupExistingFile_def split: option.splits)

lemma calls_backup: "calls (backupExistingFile t w) = calls w"
  by (simp add: backupExistingFile_def split: option.splits)

lemma readSessions_present:
  "download_err e = None \<Longrightarrow> remote w = Some (Json obj) \<Longrightarrow>
   readSessions e w = (Inr obj, (backupExistingFile (now e) w)\<lparr>local_file := Some (Json obj)\<rparr>)"
  by (simp add: readSessions_def readSessions_try_def downloadFile_def readFileSync_def
      JSON_parse_def remote_backup)

lemma map_of_assign_existing:
  "map_of (assign_existing k v ps) k' = (if k' = k \<and> k \<in> fst ` set ps then Some v else map_of ps k')"
  by (induction ps) (auto simp: rev_image_eqI)

lemma map_of_insert_index:
  "k \<notin> fst ` set ps \<Longrightarrow> map_of (insert_index k v ps) k' = (if k' = k then Some v else map_of ps k')"
  by (induction ps) auto

lemma map_of_js_set:
  "map_of (js_set obj k v) k' = (if k' = k then Some v else map_of obj k')"
proof (cases "k \<in> fst ` set obj")
  case True
  then show ?thesis by (simp add: js_set_def map_of_assign_existing)
next
  case False
  then have none: "map_of obj k = None" by (simp add: map_of_eq_None_iff)
  show ?thesis
  proof (cases "is_array_index k")
    case True
    with False show ?thesis by (simp add: js_set_def map_of_insert_index)
  next
    case idx: False
    with False none show ?thesis
      by (simp add: js_set_def map_add_def split: option.splits)
  qed
qed

lemma js_get_js_set:
  "js_get (js_set obj k v) k' = (if k' = k then Str v else js_get obj k')"
  by (simp add: js_get_def map_of_js_set)








lemma writeSessions_ok:
  "upload_err e = None \<Longrightarrow>
   writeSessions e obj w = (Inr (), w\<lparr>local_file := Some (Json obj), remote := Some (Json obj)\<rparr>)"
  by (simp add: writeSessions_def writeSessions_try_def uploadFile_def uploadFile_try_def)

lemma writeSessions_fail:
  "upload_err e = Some err \<Longrightarrow>
   writeSessions e obj w = (Inr (), w\<lparr>local_file := Some (Json obj)\<rparr>)"
  by (simp add: writeSessions_def writeSessions_try_def uploadFile_def uploadFile_try_def)


lemma pending_backup: "pending_upload (backupExistingFile t w) = pending_upload w"
  by (simp add: backupExistingFile_def split: option.splits)


lemma writeSessions_finish_fail:
  "upload_err e = Some err \<Longrightarrow> writeSessions_finish e w = w\<lparr>pending_upload := False\<rparr>"
  by (simp add: writeSessions_finish_def uploadFile_def uploadFile_try_def)

text \<open>The two parts of a call that is not awaited make up the call that is.\<close>

lemma writeSessions_finish_start:
  "writeSessions_finish e (writeSessions_start obj w)
   = (snd (writeSessions e obj w))\<lparr>pending_upload := False\<rparr>"
  by (simp add: writeSessions_finish_def writeSessions_start_def writeSessions_def
      writeSessions_try_def uploadFile_def uploadFile_try_def split: option.splits)

subsection \<open>Resolve or create, step by step\<close>


lemma getSessionId_new:
  "download_err e = None \<Longrightarrow> remote w = Some (Json obj) \<Longrightarrow> falsy (js_get obj userId) \<Longrightarrow>
   getSessionId sha256 e userId w
   = (Inr (Str (generateSessionId sha256 e userId)),
      (backupExistingFile (now e) w)
        \<lparr>local_file := Some (Json (js_set obj userId (generateSessionId sha256 e userId))),
         pending_upload := True\<rparr>)"
  by (simp add: getSessionId_def readSessions_present Let_def js_get_js_set
      writeSessions_start_def)


lemma getSessionId_load_fails:
  "readSessions e w = (Inl err, w1) \<Longrightarrow> getSessionId sha256 e userId w = (Inl err, w1)"
  by (simp add: getSessionId_def)

lemma sendMessage_appends:
  "sendMessage e text chat w = w\<lparr>calls := calls w @ [TelegramSend chat text]\<rparr>"
  by (simp add: sendMessage_def Let_def split: option.splits)

section \<open>What an id determines\<close>









section \<open>The concrete instances evaluated\<close>

lemma ex_timestamp: "to_base36 1700000000000 = ''loyw3v28''"
  by (simp add: to_base36.simps digit36_def)

lemma ex_generate: "generateSessionId ex_sha256 ex_env ''77011234567'' = ex_session_id"
  by (simp add: generateSessionId_def ex_env_def ex_timestamp ex_sha256_def ex_session_id_def)

lemma ex_verify:
  "verifySignature ex_hmac ex_body (Some (''sha256='' @ ex_digest)) (Some ''app-secret'') = Inr True"
  by (simp add: verifySignature_def ex_hmac_def timingSafeEqual_def Let_def)

lemma ex_not_index: "\<not> is_array_index ''77011234567''"
  by (simp add: is_array_index_def decimal_value_def)

lemma ex_sanitize: "sanitize (js_of_string ''Hi there'') = js_of_string ''Hi there''"
  by (simp add: sanitize_def js_of_string_def remove_backslashes_def js_trim_def
      is_js_whitespace_def is_quote_def)

lemma ex_js_set:
  "js_set ex_sessions ''77011234567'' v = ex_sessions @ [(''77011234567'', v)]"
  by (simp add: js_set_def ex_sessions_def ex_not_index)

lemma ex_post_fields:
  "http_method ex_post = ''POST''" "message ex_post = Some ex_message"
  "msg_type ex_message = Some ''text''" "msg_from ex_message = ''77011234567''"
  "msg_text ex_message = Some (js_of_string ''Hello'')" "msg_id ex_message = ''wamid.A1''"
  "phone_number_id ex_post = Some ''105500''"
  "verifySignature ex_hmac (rawBody ex_post) (signature ex_post) (APP_SECRET ex_cfg) = Inr True"
  using ex_verify by (simp_all add: ex_post_def ex_message_def ex_cfg_def)

lemma ex_world_fields:
  "remote ex_world = Some (Json ex_sessions)" "local_file ex_world = None"
  "pending_upload ex_world = False" "calls ex_world = []"
  "backupExistingFile t ex_world = ex_world"
  by (simp_all add: ex_world_def backupExistingFile_def)

lemma ex_absent: "js_get ex_sessions ''77011234567'' = Undefined"
  by (simp add: js_get_def ex_sessions_def object_prototype_members_def)

lemma ex_getSessionId:
  assumes "download_err e = None" and "now e = now ex_env" and "random36 e = random36 ex_env"
  shows "getSessionId ex_sha256 e ''77011234567'' ex_world
   = (Inr (Str ex_session_id),
      ex_world\<lparr>local_file := Some (Json (ex_sessions @ [(''77011234567'', ex_session_id)])),
               pending_upload := True\<rparr>)"
proof -
  have g: "generateSessionId ex_sha256 e ''77011234567'' = ex_session_id"
    using ex_generate assms(2,3) by (simp add: generateSessionId_def)
  have "falsy (js_get ex_sessions ''77011234567'')"
    by (simp add: ex_absent falsy_def)
  with assms(1) ex_world_fields(1) show ?thesis
    by (simp add: getSessionId_new g ex_js_set ex_world_fields(5))
qed

lemma ex_readSessions:
  "readSessions ex_env ex_world = (Inr ex_sessions, ex_world\<lparr>local_file := Some (Json ex_sessions)\<rparr>)"
proof -
  have "download_err ex_env = None"
    by (simp add: ex_env_def)
  then have "readSessions ex_env ex_world
      = (Inr ex_sessions,
         (backupExistingFile (now ex_env) ex_world)\<lparr>local_file := Some (Json ex_sessions)\<rparr>)"
    using ex_world_fields(1) by (rule readSessions_present)
  then show ?thesis
    by (simp add: ex_world_fields(5))
qed

lemma ex_find_key: "find_key ex_sessions (x_session ex_notify) = Some ''77025556677''"
  by (simp add: find_key_def query_value_def js_get_def ex_sessions_def ex_notify_def)

lemma remove_first_prefix: "pat \<noteq> [] \<Longrightarrow> remove_first pat (pat @ rest) = rest"
  by (cases pat) auto

lemma length_buffer_from_append:
  "length (buffer_from (a @ b)) = length (buffer_from a) + length (buffer_from b)"
  by (simp add: buffer_from_def)

lemma verifySignature_overlong:
  "verifySignature hmac payload (Some (''sha256='' @ hmac k payload @ ''0'')) (Some k)
   = Inl RangeError"
proof -
  have "remove_first ''sha256='' (''sha256='' @ hmac k payload @ ''0'') = hmac k payload @ ''0''"
    by (rule remove_first_prefix) simp
  moreover have "length (buffer_from (hmac k payload @ ''0'')) \<noteq> length (buffer_from (hmac k payload))"
    by (simp add: length_buffer_from_append) (simp add: buffer_from_def utf8_char_def)
  ultimately show ?thesis
    by (simp add: verifySignature_def timingSafeEqual_def del: remove_first.simps)
qed

section \<open>The verifier raises on malformed headers\<close>

text \<open>
  Claim C2 says that the verifier returns a boolean for every header and never raises.
  The code raises instead: a request without the signature header makes
  \<^verbatim>\<open>signature.replace\<close> throw a \<^verbatim>\<open>TypeError\<close>, and a header whose hexadecimal part is
  one character longer than the recomputed digest makes \<^verbatim>\<open>timingSafeEqual\<close> throw a
  \<^verbatim>\<open>RangeError\<close>, whatever the digest function, the body and the secret are.
\<close>

theorem verifySignature_raises:
  "verifySignature hmac payload None secret = Inl TypeError \<and>
   verifySignature hmac payload (Some (''sha256='' @ hmac k payload @ ''0'')) (Some k)
     = Inl RangeError"
proof (rule conjI)
  show "verifySignature hmac payload None secret = Inl TypeError"
    by (simp add: verifySignature_def)
  show "verifySignature hmac payload (Some (''sha256='' @ hmac k payload @ ''0'')) (Some k)
      = Inl RangeError"
    by (rule verifySignature_overlong)
qed

text \<open>
  What the handler does with each outcome of the verifier on a text message: an
  exception gives 500, the answer \<open>False\<close> gives 403; the world is untouched in both.
\<close>

lemma WAwebhook_verify_raises:
  "verifySignature hmac (rawBody req) (signature req) (APP_SECRET cfg) = Inl err \<Longrightarrow>
   http_method req = ''POST'' \<Longrightarrow> message req = Some m \<Longrightarrow> msg_type m = Some ''text'' \<Longrightarrow>
   WAwebhook hmac sha256 cfg e req w = (Some (SendStatus 500), w)"
  by (simp add: WAwebhook_def handle_text_def)

lemma WAwebhook_verify_false:
  "verifySignature hmac (rawBody req) (signature req) (APP_SECRET cfg) = Inr False \<Longrightarrow>
   http_method req = ''POST'' \<Longrightarrow> message req = Some m \<Longrightarrow> msg_type m = Some ''text'' \<Longrightarrow>
   WAwebhook hmac sha256 cfg e req w = (Some (Send 403 (Some ''Unexpected request'')), w)"
  by (simp add: WAwebhook_def handle_text_def)

text \<open>
  Claim C1 says that a text message whose signature fails verification is answered with
  403 and leaves the world untouched. For a text message that carries no signature
  header, and for one whose header is one character longer than the digest, the handler
  leaves the world untouched (no store change, no call) but answers 500: the exception
  of the verifier lands in the handler's \<^verbatim>\<open>catch\<close>.
\<close>

theorem WAwebhook_malformed_signature_500:
  "WAwebhook hmac sha256 cfg e
     (req\<lparr>http_method := ''POST'', message := Some (m\<lparr>msg_type := Some ''text''\<rparr>),
          signature := None\<rparr>) w
   = (Some (SendStatus 500), w) \<and>
   WAwebhook hmac sha256 (cfg\<lparr>APP_SECRET := Some k\<rparr>) e
     (req\<lparr>http_method := ''POST'', message := Some (m\<lparr>msg_type := Some ''text''\<rparr>),
          signature := Some (''sha256='' @ hmac k (rawBody req) @ ''0'')\<rparr>) w
   = (Some (SendStatus 500), w)"
proof -
  have "WAwebhook hmac sha256 cfg e
     (req\<lparr>http_method := ''POST'', message := Some (m\<lparr>msg_type := Some ''text''\<rparr>),
          signature := None\<rparr>) w
   = (Some (SendStatus 500), w)"
    by (simp add: WAwebhook_def handle_text_def verifySignature_def)
  moreover have "WAwebhook hmac sha256 (cfg\<lparr>APP_SECRET := Some k\<rparr>) e
     (req\<lparr>http_method := ''POST'', message := Some (m\<lparr>msg_type := Some ''text''\<rparr>),
          signature := Some (''sha256='' @ hmac k (rawBody req) @ ''0'')\<rparr>) w
   = (Some (SendStatus 500), w)"
    by (simp add: WAwebhook_def handle_text_def verifySignature_overlong del: append.simps)
  ultimately show ?thesis
    by (rule conjI)
qed

section \<open>Dispatch on the method\<close>

text \<open>
  Claim C10. A request whose method is neither \<^verbatim>\<open>POST\<close> nor \<^verbatim>\<open>GET\<close> gets no response
  from the handler, and the world is as it was.
\<close>

theorem WAwebhook_other_method_no_response:
  "http_method req \<noteq> ''POST'' \<Longrightarrow> http_method req \<noteq> ''GET'' \<Longrightarrow>
   WAwebhook hmac sha256 cfg e req w = (None, w)"
  by (simp add: WAwebhook_def)

theorem WAwebhook_other_method_witness:
  "http_method (ex_post\<lparr>http_method := ''PUT''\<rparr>) \<noteq> ''POST'' \<and>
   http_method (ex_post\<lparr>http_method := ''PUT''\<rparr>) \<noteq> ''GET'' \<and>
   WAwebhook ex_hmac ex_sha256 ex_cfg ex_env (ex_post\<lparr>http_method := ''PUT''\<rparr>) ex_world
     = (None, ex_world)"
  using WAwebhook_other_method_no_response
    [of "ex_post\<lparr>http_method := ''PUT''\<rparr>" ex_hmac ex_sha256 ex_cfg ex_env ex_world]
  by simp

section \<open>Loading when the bucket has no snapshot\<close>

text \<open>
  Claim C6 says that loading returns the empty mapping when the remote object does not
  exist. With the storage service reachable and no object in the bucket, \<^verbatim>\<open>readSessions\<close>
  rethrows the SDK's error: its code is the number 404, not \<^verbatim>\<open>'ENOENT'\<close>.
\<close>

theorem readSessions_missing_remote_raises:
  "readSessions (e\<lparr>download_err := None\<rparr>) (w\<lparr>remote := None\<rparr>)
   = (Inl (ApiError 404), backupExistingFile (now e) (w\<lparr>remote := None\<rparr>))"
  by (simp add: readSessions_def readSessions_try_def downloadFile_def remote_backup)

section \<open>Resolve or create\<close>






section \<open>Upload failures\<close>

text \<open>
  Claim C5 says that a failed upload propagates to the caller and fails the request. The
  code catches it twice, in \<^verbatim>\<open>uploadFile\<close> and in \<^verbatim>\<open>writeSessions\<close>, and only logs:
  with the upload failing, \<^verbatim>\<open>writeSessions\<close> returns normally with the new mapping in
  the local file only, and \<^verbatim>\<open>getSessionId\<close> still returns the id it minted for a new
  sender while the remote snapshot stays as it was, when it returns and after the upload
  it started has failed.
\<close>

theorem writeSessions_swallows_upload_failure:
  assumes "upload_err e = Some err"
    and "download_err e = None" and "remote w = Some (Json obj)"
    and "js_get obj userId = Undefined"
  shows "writeSessions e obj' w' = (Inr (), w'\<lparr>local_file := Some (Json obj')\<rparr>) \<and>
         fst (getSessionId sha256 e userId w) = Inr (Str (generateSessionId sha256 e userId)) \<and>
         remote (snd (getSessionId sha256 e userId w)) = remote w \<and>
         remote (writeSessions_finish e (snd (getSessionId sha256 e userId w))) = remote w"
proof -
  have swallowed: "writeSessions e obj' w' = (Inr (), w'\<lparr>local_file := Some (Json obj')\<rparr>)"
    using assms(1) by (rule writeSessions_fail)
  have "falsy (js_get obj userId)"
    using assms(4) by (simp add: falsy_def)
  with assms(2,3) have "getSessionId sha256 e userId w
      = (Inr (Str (generateSessionId sha256 e userId)),
         (backupExistingFile (now e) w)
           \<lparr>local_file := Some (Json (js_set obj userId (generateSessionId sha256 e userId))),
            pending_upload := True\<rparr>)"
    by (rule getSessionId_new)
  then show ?thesis
    by (simp add: swallowed remote_backup writeSessions_finish_fail [OF assms(1)])
qed

theorem writeSessions_swallows_witness:
  "upload_err (ex_env\<lparr>upload_err := Some (ApiError 503)\<rparr>) = Some (ApiError 503) \<and>
   writeSessions (ex_env\<lparr>upload_err := Some (ApiError 503)\<rparr>) ex_sessions ex_world
     = (Inr (), ex_world\<lparr>local_file := Some (Json ex_sessions)\<rparr>) \<and>
   fst (getSessionId ex_sha256 (ex_env\<lparr>upload_err := Some (ApiError 503)\<rparr>)
          ''77011234567'' ex_world)
     = Inr (Str ex_session_id) \<and>
   remote (snd (getSessionId ex_sha256 (ex_env\<lparr>upload_err := Some (ApiError 503)\<rparr>)
                  ''77011234567'' ex_world))
     = Some (Json ex_sessions) \<and>
   remote (writeSessions_finish (ex_env\<lparr>upload_err := Some (ApiError 503)\<rparr>)
             (snd (getSessionId ex_sha256 (ex_env\<lparr>upload_err := Some (ApiError 503)\<rparr>)
                    ''77011234567'' ex_world)))
     = Some (Json ex_sessions)"
proof -
  let ?e = "ex_env\<lparr>upload_err := Some (ApiError 503)\<rparr>"
  have h1: "upload_err ?e = Some (ApiError 503)"
    by simp
  have h2: "download_err ?e = None"
    by (simp add: ex_env_def)
  have g: "generateSessionId ex_sha256 ?e ''77011234567'' = ex_session_id"
    using ex_generate by (simp add: generateSessionId_def ex_env_def)
  note r = writeSessions_swallows_upload_failure
    [OF h1 h2 ex_world_fields(1) ex_absent, of ex_sessions ex_world ex_sha256,
     unfolded g ex_world_fields(1)]
  from r h1 show ?thesis
    by blast
qed

text \<open>
  With the bucket refusing the upload (status 503), nothing is raised and the webhook
  answers the new sender's message with 200.
\<close>

theorem upload_failure_counterexample:
  "upload_err (ex_env\<lparr>upload_err := Some (ApiError 503)\<rparr>) = Some (ApiError 503) \<and>
   fst (writeSessions (ex_env\<lparr>upload_err := Some (ApiError 503)\<rparr>) ex_sessions ex_world)
     = Inr () \<and>
   fst (getSessionId ex_sha256 (ex_env\<lparr>upload_err := Some (ApiError 503)\<rparr>)
          ''77011234567'' ex_world)
     = Inr (Str ex_session_id) \<and>
   fst (WAwebhook ex_hmac ex_sha256 ex_cfg (ex_env\<lparr>upload_err := Some (ApiError 503)\<rparr>)
          ex_post ex_world)
     = Some (SendStatus 200) \<and>
   remote (writeSessions_finish (ex_env\<lparr>upload_err := Some (ApiError 503)\<rparr>)
             (snd (WAwebhook ex_hmac ex_sha256 ex_cfg
                     (ex_env\<lparr>upload_err := Some (ApiError 503)\<rparr>) ex_post ex_world)))
     = Some (Json ex_sessions)"
proof -
  let ?e = "ex_env\<lparr>upload_err := Some (ApiError 503)\<rparr>"
  have h1: "upload_err ?e = Some (ApiError 503)"
    by simp
  have w: "fst (writeSessions ?e ex_sessions ex_world) = Inr ()"
    by (simp add: writeSessions_fail [OF h1])
  have s: "getSessionId ex_sha256 ?e ''77011234567'' ex_world
      = (Inr (Str ex_session_id),
         ex_world\<lparr>local_file := Some (Json (ex_sessions @ [(''77011234567'', ex_session_id)])),
                  pending_upload := True\<rparr>)"
    by (rule ex_getSessionId) (simp_all add: ex_env_def)
  have d: "detect_intent ?e = (\<lambda>text sessionId userId. Inr (js_of_string ''Hi there''))"
    "send_text_err ?e = None" "mark_read_err ?e = None"
    by (simp_all add: ex_env_def)
  have h: "handle_text ex_hmac ex_sha256 ex_cfg ?e ex_post ex_message ex_world
      = (Inr (SendStatus 200),
         sendMessage ?e
           (transcript ''77011234567'' (js_of_string ''Hello'') (js_of_string ''Hi there''))
           (TEST_ID ex_cfg)
           (sendMessage ?e
              (transcript ''77011234567'' (js_of_string ''Hello'') (js_of_string ''Hi there''))
              (CHAT_ID ex_cfg)
              (ex_world\<lparr>local_file := Some (Json (ex_sessions @ [(''77011234567'', ex_session_id)])),
                        pending_upload := True,
                        calls := [DetectIntent (js_of_string ''Hello'') (Str ex_session_id)
                                    ''77011234567'',
                                  SendText (Some ''105500'') ''77011234567''
                                    (js_of_string ''Hi there''),
                                  MarkRead (Some ''105500'') ''wamid.A1'']\<rparr>)))"
    by (simp add: handle_text_def ex_post_fields s d Let_def ex_sanitize ex_world_fields)
  have r: "WAwebhook ex_hmac ex_sha256 ex_cfg ?e ex_post ex_world
      = (Some (SendStatus 200), snd (handle_text ex_hmac ex_sha256 ex_cfg ?e ex_post ex_message ex_world))"
    by (simp add: WAwebhook_def ex_post_fields h)
  have "remote (snd (handle_text ex_hmac ex_sha256 ex_cfg ?e ex_post ex_message ex_world))
      = Some (Json ex_sessions)"
    by (simp add: h sendMessage_appends ex_world_fields)
  then have "remote (writeSessions_finish ?e
        (snd (WAwebhook ex_hmac ex_sha256 ex_cfg ?e ex_post ex_world)))
      = Some (Json ex_sessions)"
    by (simp add: r writeSessions_finish_fail [OF h1])
  with h1 w s r show ?thesis
    by simp
qed

section \<open>Read receipt\<close>

text \<open>
  Claim C7 says that a failing read-receipt mark does not fail the request. The mark is
  awaited inside the same \<^verbatim>\<open>try\<close> block as the reply: for a verified text message whose
  reply was delivered, a failing mark ends in the handler's \<^verbatim>\<open>catch\<close>, the response is
  500, and the calls made are the backend query, the reply and the mark; the operator
  channel is not reached.
\<close>

theorem read_receipt_failure_gives_500:
  assumes "http_method req = ''POST''" and "message req = Some m"
    and "msg_type m = Some ''text''"
    and "verifySignature hmac (rawBody req) (signature req) (APP_SECRET cfg) = Inr True"
    and "getSessionId sha256 e (msg_from m) w = (Inr sid, w1)"
    and "msg_text m = Some body"
    and "detect_intent e body sid (msg_from m) = Inr reply"
    and "send_text_err e = None" and "mark_read_err e = Some err"
  shows "WAwebhook hmac sha256 cfg e req w
         = (Some (SendStatus 500),
            w1\<lparr>calls := calls w1 @
                 [DetectIntent body sid (msg_from m),
                  SendText (phone_number_id req) (msg_from m) (sanitize reply),
                  MarkRead (phone_number_id req) (msg_id m)]\<rparr>)"
proof -
  have "handle_text hmac sha256 cfg e req m w
      = (Inl err,
         w1\<lparr>calls := calls w1 @
              [DetectIntent body sid (msg_from m),
               SendText (phone_number_id req) (msg_from m) (sanitize reply),
               MarkRead (phone_number_id req) (msg_id m)]\<rparr>)"
    using assms(4-9) by (simp add: handle_text_def Let_def)
  with assms(1-3) show ?thesis
    by (simp add: WAwebhook_def)
qed

theorem read_receipt_failure_witness:
  "send_text_err (ex_env\<lparr>mark_read_err := Some (ApiError 500)\<rparr>) = None \<and>
   mark_read_err (ex_env\<lparr>mark_read_err := Some (ApiError 500)\<rparr>) = Some (ApiError 500) \<and>
   WAwebhook ex_hmac ex_sha256 ex_cfg (ex_env\<lparr>mark_read_err := Some (ApiError 500)\<rparr>)
     ex_post ex_world
   = (Some (SendStatus 500),
      ex_world\<lparr>local_file := Some (Json (ex_sessions @ [(''77011234567'', ex_session_id)])),
               pending_upload := True,
               calls := [DetectIntent (js_of_string ''Hello'') (Str ex_session_id) ''77011234567'',
                         SendText (Some ''105500'') ''77011234567'' (js_of_string ''Hi there''),
                         MarkRead (Some ''105500'') ''wamid.A1'']\<rparr>)"
proof -
  let ?e = "ex_env\<lparr>mark_read_err := Some (ApiError 500)\<rparr>"
  have "getSessionId ex_sha256 ?e ''77011234567'' ex_world
      = (Inr (Str ex_session_id),
         ex_world\<lparr>local_file := Some (Json (ex_sessions @ [(''77011234567'', ex_session_id)])),
                  pending_upload := True\<rparr>)"
    by (rule ex_getSessionId) (simp_all add: ex_env_def)
  then have s: "getSessionId ex_sha256 ?e (msg_from ex_message) ex_world
      = (Inr (Str ex_session_id),
         ex_world\<lparr>local_file := Some (Json (ex_sessions @ [(''77011234567'', ex_session_id)])),
                  pending_upload := True\<rparr>)"
    by (simp add: ex_post_fields)
  have d: "detect_intent ?e (js_of_string ''Hello'') (Str ex_session_id) (msg_from ex_message)
      = Inr (js_of_string ''Hi there'')"
    by (simp add: ex_env_def)
  have h8: "send_text_err ?e = None"
    by (simp add: ex_env_def)
  have h9: "mark_read_err ?e = Some (ApiError 500)"
    by simp
  note r = read_receipt_failure_gives_500
    [OF ex_post_fields(1) ex_post_fields(2) ex_post_fields(3) ex_post_fields(8) s
        ex_post_fields(5) d h8 h9]
  from r h8 h9 show ?thesis
    by (simp add: ex_post_fields ex_sanitize ex_world_fields)
qed

text \<open>
  The reply to \<open>ex_message\<close> is sent, the mark is refused, and the response is 500.
\<close>

theorem read_receipt_counterexample:
  "send_text_err (ex_env\<lparr>mark_read_err := Some (ApiError 503)\<rparr>) = None \<and>
   SendText (Some ''105500'') ''77011234567'' (js_of_string ''Hi there'')
     \<in> set (calls (snd (WAwebhook ex_hmac ex_sha256 ex_cfg
                           (ex_env\<lparr>mark_read_err := Some (ApiError 503)\<rparr>) ex_post ex_world))) \<and>
   fst (WAwebhook ex_hmac ex_sha256 ex_cfg (ex_env\<lparr>mark_read_err := Some (ApiError 503)\<rparr>)
          ex_post ex_world)
     = Some (SendStatus 500)"
proof -
  let ?e = "ex_env\<lparr>mark_read_err := Some (ApiError 503)\<rparr>"
  have s: "getSessionId ex_sha256 ?e ''77011234567'' ex_world
      = (Inr (Str ex_session_id),
         ex_world\<lparr>local_file := Some (Json (ex_sessions @ [(''77011234567'', ex_session_id)])),
                  pending_upload := True\<rparr>)"
    by (rule ex_getSessionId) (simp_all add: ex_env_def)
  have d: "detect_intent ?e = (\<lambda>text sessionId userId. Inr (js_of_string ''Hi there''))"
    "send_text_err ?e = None" "mark_read_err ?e = Some (ApiError 503)"
    by (simp_all add: ex_env_def)
  have "handle_text ex_hmac ex_sha256 ex_cfg ?e ex_post ex_message ex_world
      = (Inl (ApiError 503),
         ex_world\<lparr>local_file := Some (Json (ex_sessions @ [(''77011234567'', ex_session_id)])),
                  pending_upload := True,
                  calls := [DetectIntent (js_of_string ''Hello'') (Str ex_session_id)
                              ''77011234567'',
                            SendText (Some ''105500'') ''77011234567'' (js_of_string ''Hi there''),
                            MarkRead (Some ''105500'') ''wamid.A1'']\<rparr>)"
    by (simp add: handle_text_def ex_post_fields s d Let_def ex_sanitize ex_world_fields)
  then have "WAwebhook ex_hmac ex_sha256 ex_cfg ?e ex_post ex_world
      = (Some (SendStatus 500),
         ex_world\<lparr>local_file := Some (Json (ex_sessions @ [(''77011234567'', ex_session_id)])),
                  pending_upload := True,
                  calls := [DetectIntent (js_of_string ''Hello'') (Str ex_session_id)
                              ''77011234567'',
                            SendText (Some ''105500'') ''77011234567'' (js_of_string ''Hi there''),
                            MarkRead (Some ''105500'') ''wamid.A1'']\<rparr>)"
    by (simp add: WAwebhook_def ex_post_fields)
  with d(2) show ?thesis
    by simp
qed

section \<open>Destination of the notifications\<close>

text \<open>
  Claim C8 says that the notification is sent to the sender recovered from the session
  mapping. In both endpoints the destination is the configured \<^verbatim>\<open>PHONE_NUMBER\<close>; the
  recovered sender (or \<^verbatim>\<open>undefined\<close> when no entry matches) is one of the text
  parameters of the template. This holds whenever the snapshot loads.
\<close>

theorem notification_goes_to_configured_number:
  assumes "readSessions e w = (Inr obj, w1)"
  shows "newLead cfg e req w
         = (SendJson
              ''Your request has been successfully created, please wait, we will contact you soon.'',
            w1\<lparr>calls := calls w1 @
                 [SendTemplate
                    \<lparr>tm_to = PHONE_NUMBER cfg, tm_name = ''new_lead_notification'',
                     tm_language = ''ru'',
                     tm_parameters =
                       [field req ''name'', field req ''company'',
                        find_key obj (x_session req),
                        field req ''surface'', field req ''period'', field req ''location'']\<rparr>]\<rparr>) \<and>
         newAccident cfg e req w
         = (SendJson
              ''Your request has been successfully created, please wait, we will contact you shortly.'',
            w1\<lparr>calls := calls w1 @
                 [SendTemplate
                    \<lparr>tm_to = PHONE_NUMBER cfg, tm_name = ''new_accident_notification'',
                     tm_language = ''ru'',
                     tm_parameters =
                       [field req ''name'', field req ''organization'', field req ''problem'',
                        find_key obj (x_session req)]\<rparr>]\<rparr>)"
  using assms by (simp add: newLead_def newAccident_def Let_def)

theorem notification_destination_witness:
  "readSessions ex_env ex_world
     = (Inr ex_sessions, ex_world\<lparr>local_file := Some (Json ex_sessions)\<rparr>) \<and>
   newLead ex_cfg ex_env ex_notify ex_world
     = (SendJson
          ''Your request has been successfully created, please wait, we will contact you soon.'',
        ex_world\<lparr>local_file := Some (Json ex_sessions),
                 calls := [SendTemplate
                    \<lparr>tm_to = Some ''77770001122'', tm_name = ''new_lead_notification'',
                     tm_language = ''ru'',
                     tm_parameters =
                       [Some ''Aigerim'', Some ''Too Alem'', Some ''77025556677'',
                        Some ''120'', Some ''6'', Some ''Almaty'']\<rparr>]\<rparr>) \<and>
   newAccident ex_cfg ex_env ex_notify ex_world
     = (SendJson
          ''Your request has been successfully created, please wait, we will contact you shortly.'',
        ex_world\<lparr>local_file := Some (Json ex_sessions),
                 calls := [SendTemplate
                    \<lparr>tm_to = Some ''77770001122'', tm_name = ''new_accident_notification'',
                     tm_language = ''ru'',
                     tm_parameters =
                       [Some ''Aigerim'', Some ''Too Alem'', Some ''leak'',
                        Some ''77025556677'']\<rparr>]\<rparr>)"
proof -
  note r = notification_goes_to_configured_number [OF ex_readSessions, of ex_cfg ex_notify]
  have c: "calls ex_world = []" "PHONE_NUMBER ex_cfg = Some ''77770001122''"
    by (simp_all add: ex_world_def ex_cfg_def)
  have f: "field ex_notify ''name'' = Some ''Aigerim''"
    "field ex_notify ''company'' = Some ''Too Alem''"
    "field ex_notify ''surface'' = Some ''120''"
    "field ex_notify ''period'' = Some ''6''"
    "field ex_notify ''location'' = Some ''Almaty''"
    "field ex_notify ''organization'' = Some ''Too Alem''"
    "field ex_notify ''problem'' = Some ''leak''"
    by (simp_all add: ex_notify_def)
  from r show ?thesis
    by (simp add: ex_readSessions ex_find_key c f)
qed

text \<open>
  The session of sender \<^verbatim>\<open>77025556677\<close>: the message goes to \<^verbatim>\<open>77770001122\<close>.
\<close>

theorem notification_destination_counterexample:
  "find_key ex_sessions (x_session ex_notify) = Some ''77025556677'' \<and>
   calls (snd (newLead ex_cfg ex_env ex_notify ex_world))
     = [SendTemplate
          \<lparr>tm_to = Some ''77770001122'', tm_name = ''new_lead_notification'',
           tm_language = ''ru'',
           tm_parameters =
             [Some ''Aigerim'', Some ''Too Alem'', Some ''77025556677'',
              Some ''120'', Some ''6'', Some ''Almaty'']\<rparr>] \<and>
   Some ''77770001122'' \<noteq> Some ''77025556677''"
proof -
  have c: "calls ex_world = []" "PHONE_NUMBER ex_cfg = Some ''77770001122''"
    by (simp_all add: ex_world_def ex_cfg_def)
  have f: "field ex_notify ''name'' = Some ''Aigerim''"
    "field ex_notify ''company'' = Some ''Too Alem''"
    "field ex_notify ''surface'' = Some ''120''"
    "field ex_notify ''period'' = Some ''6''"
    "field ex_notify ''location'' = Some ''Almaty''"
    by (simp_all add: ex_notify_def)
  show ?thesis
    by (simp add: newLead_def ex_readSessions ex_find_key c f Let_def)
qed

end
